theory Spec2Isabelle
  imports Main
begin

section \<open>The Dialog component: data model\<close>

text \<open>
  The component under study is \<^verbatim>\<open>Dialog\<close> (a React function component). Its
  observable behaviour has three parts, each modelled from the source:
  \<^item> the parameter defaults of the destructured props;
  \<^item> the element tree it returns, with the click handlers attached to the elements;
  \<^item> the two \<^verbatim>\<open>useEffect\<close> hooks, which write \<^verbatim>\<open>document.body.style.overflow\<close>
    and register a \<^verbatim>\<open>keydown\<close> listener on \<^verbatim>\<open>document\<close>.
\<close>

datatype DialogSize = Small | Medium | Large | Fullscreen

text \<open>
  A caller-supplied function (\<^verbatim>\<open>onClose\<close>) is known by its identity only; invoking it
  is recorded by appending that identity to a list of calls.
\<close>

type_synonym callback = nat

text \<open>\<^verbatim>\<open>maxWidth?: string | number\<close>; numbers are taken to be integers.\<close>

datatype maxWidth = MaxWidthNumber int | MaxWidthString string

text \<open>\<^verbatim>\<open>React.CSSProperties\<close>: CSS property names with their values.\<close>

type_synonym CSSProperties = "(string \<times> string) list"

text \<open>
  The click handlers that occur in the returned tree, as closures over the values they
  capture: \<^verbatim>\<open>handleBackdropClick\<close> captures \<^verbatim>\<open>closeOnOutsideClick\<close> and \<^verbatim>\<open>onClose\<close>;
  the container's handler is \<^verbatim>\<open>(e) => e.stopPropagation()\<close>; the close button's handler
  is \<^verbatim>\<open>onClose\<close> itself.
\<close>

datatype handler =
    HandleBackdropClick bool callback
  | StopPropagation
  | OnClose callback

text \<open>
  The styled components of the source, and \<open>Host\<close> for an element of the caller's.
  The container carries the props it is given: \<^verbatim>\<open>className\<close>, \<^verbatim>\<open>$size\<close>, \<^verbatim>\<open>$fullWidth\<close>,
  \<^verbatim>\<open>$maxWidth\<close> and \<^verbatim>\<open>data-testid\<close>.
\<close>

datatype tag =
    DialogBackdrop
  | DialogContainer "string option" DialogSize bool "maxWidth option" "string option"
  | DialogHeader
  | DialogTitle
  | CloseButton
  | DialogContent
  | DialogActions
  | Host string

text \<open>
  An element has a tag, an optional \<^verbatim>\<open>onClick\<close>, its inline \<^verbatim>\<open>style\<close> and its child
  elements. Text children (the close button's glyph, a title given as a string) are not
  elements and are never the target of an event, so they are left out.
\<close>

datatype element =
  Element (el_tag: tag) (el_onClick: "handler option") (el_style: CSSProperties)
    (el_kids: "element list")

text \<open>
  \<^verbatim>\<open>React.ReactNode\<close>: the elements the caller passes as title, children or actions.
  An optional node that is \<open>None\<close> stands for an omitted (or falsy) one.
\<close>

type_synonym ReactNode = "element list"

text \<open>\<^verbatim>\<open>DialogProps\<close>, as the caller passes them: every optional prop may be absent.\<close>

record DialogProps =
  props_open :: bool
  props_title :: "ReactNode option"
  props_children :: ReactNode
  props_actions :: "ReactNode option"
  props_size :: "DialogSize option"
  props_showCloseButton :: "bool option"
  props_closeOnOutsideClick :: "bool option"
  props_closeOnEscape :: "bool option"
  props_onClose :: callback
  props_className :: "string option"
  props_style :: "CSSProperties option"
  props_showBackdrop :: "bool option"
  props_fullWidth :: "bool option"
  props_maxWidth :: "maxWidth option"
  props_disableBodyScroll :: "bool option"
  props_usePortal :: "bool option"
  props_dataTestId :: "string option"

text \<open>The local variables that the parameter destructuring of \<^verbatim>\<open>Dialog\<close> binds.\<close>

record locals =
  "open" :: bool
  title :: "ReactNode option"
  children :: ReactNode
  actions :: "ReactNode option"
  size_d :: DialogSize
  showCloseButton :: bool
  closeOnOutsideClick :: bool
  closeOnEscape :: bool
  onClose :: callback
  className :: "string option"
  style :: "CSSProperties option"
  showBackdrop :: bool
  fullWidth :: bool
  maxWidth :: "maxWidth option"
  disableBodyScroll :: bool
  usePortal :: bool
  dataTestId :: "string option"

text \<open>A default parameter value applies when the prop is \<^verbatim>\<open>undefined\<close>.\<close>

definition default_to :: "'a \<Rightarrow> 'a option \<Rightarrow> 'a" where
  "default_to d v = (case v of None \<Rightarrow> d | Some x \<Rightarrow> x)"

definition destructure :: "DialogProps \<Rightarrow> locals" where
  "destructure props =
     \<lparr> open = props_open props,
       title = props_title props,
       children = props_children props,
       actions = props_actions props,
       size_d = default_to Medium (props_size props),
       showCloseButton = default_to True (props_showCloseButton props),
       closeOnOutsideClick = default_to True (props_closeOnOutsideClick props),
       closeOnEscape = default_to True (props_closeOnEscape props),
       onClose = props_onClose props,
       className = props_className props,
       style = props_style props,
       showBackdrop = default_to True (props_showBackdrop props),
       fullWidth = default_to False (props_fullWidth props),
       maxWidth = props_maxWidth props,
       disableBodyScroll = default_to True (props_disableBodyScroll props),
       usePortal = default_to True (props_usePortal props),
       dataTestId = props_dataTestId props \<rparr>"

text \<open>The props with only the required ones given.\<close>

definition required_only :: "bool \<Rightarrow> ReactNode \<Rightarrow> callback \<Rightarrow> DialogProps" where
  "required_only opn chs cb =
     \<lparr> props_open = opn, props_title = None, props_children = chs, props_actions = None,
       props_size = None, props_showCloseButton = None, props_closeOnOutsideClick = None,
       props_closeOnEscape = None, props_onClose = cb, props_className = None,
       props_style = None, props_showBackdrop = None, props_fullWidth = None,
       props_maxWidth = None, props_disableBodyScroll = None, props_usePortal = None,
       props_dataTestId = None \<rparr>"

section \<open>The returned element tree\<close>

text \<open>
  \<^verbatim>\<open>handleBackdropClick\<close>: the last argument but one says whether
  \<^verbatim>\<open>event.target === event.currentTarget\<close>; the calls made so far are returned extended.
\<close>

definition handleBackdropClick :: "bool \<Rightarrow> callback \<Rightarrow> bool \<Rightarrow> callback list \<Rightarrow> callback list" where
  "handleBackdropClick closeOnOutsideClick_v onClose_v target_is_current called =
     (if closeOnOutsideClick_v \<and> target_is_current then called @ [onClose_v] else called)"

text \<open>What is rendered under \<^verbatim>\<open>DialogHeader\<close>: the title, then the close button.\<close>

definition header_kids :: "locals \<Rightarrow> element list" where
  "header_kids c =
     (case title c of None \<Rightarrow> [] | Some t \<Rightarrow> [Element DialogTitle None [] t]) @
     (if showCloseButton c then [Element CloseButton (Some (OnClose (onClose c))) [] []] else [])"

definition container_kids :: "locals \<Rightarrow> element list" where
  "container_kids c =
     (if title c \<noteq> None \<or> showCloseButton c
      then [Element DialogHeader None [] (header_kids c)] else []) @
     [Element DialogContent None [] (children c)] @
     (case actions c of None \<Rightarrow> [] | Some a \<Rightarrow> [Element DialogActions None [] a])"

text \<open>The panel: \<^verbatim>\<open>DialogContainer\<close> with its props and what is rendered inside it.\<close>

definition dialogContainer :: "locals \<Rightarrow> element" where
  "dialogContainer c =
     Element
       (DialogContainer (className c) (size_d c) (fullWidth c) (maxWidth c) (dataTestId c))
       (Some StopPropagation)
       (default_to [] (style c))
       (container_kids c)"

definition dialogContent :: "locals \<Rightarrow> element" where
  "dialogContent c =
     Element DialogBackdrop
       (Some (HandleBackdropClick (closeOnOutsideClick c) (onClose c)))
       [(''display'', if showBackdrop c then ''flex'' else ''none'')]
       [dialogContainer c]"

text \<open>
  The value the component returns: \<^verbatim>\<open>null\<close>, the tree itself, or the tree in a portal
  to \<^verbatim>\<open>document.body\<close>.
\<close>

datatype rendered = Inline element | Portal element

definition render_locals :: "locals \<Rightarrow> rendered option" where
  "render_locals c =
     (if \<not> open c then None
      else Some (if usePortal c then Portal (dialogContent c) else Inline (dialogContent c)))"

definition Dialog :: "DialogProps \<Rightarrow> rendered option" where
  "Dialog props = render_locals (destructure props)"

section \<open>Click events on the returned tree\<close>

text \<open>
  Running the \<^verbatim>\<open>onClick\<close> of one element during the bubbling of a click. The flag
  says whether the element is the event's target; the result is the calls made so far
  and whether \<^verbatim>\<open>stopPropagation\<close> was called.
\<close>

fun run_handler :: "handler option \<Rightarrow> bool \<Rightarrow> callback list \<Rightarrow> callback list \<times> bool" where
  "run_handler None target_is_current called = (called, False)"
| "run_handler (Some (HandleBackdropClick coc cb)) target_is_current called =
     (handleBackdropClick coc cb target_is_current called, False)"
| "run_handler (Some StopPropagation) target_is_current called = (called, True)"
| "run_handler (Some (OnClose cb)) target_is_current called = (called @ [cb], False)"

text \<open>
  A click whose target is the element reached from \<open>e\<close> by the given child indices.
  The handlers run from the target outwards until one stops the propagation. The result
  is \<open>None\<close> when the indices address no element.
\<close>

fun bubble :: "element \<Rightarrow> nat list \<Rightarrow> (callback list \<times> bool) option" where
  "bubble e [] = Some (run_handler (el_onClick e) True [])"
| "bubble e (i # is) =
     (if i < length (el_kids e) then
        (case bubble (el_kids e ! i) is of
           None \<Rightarrow> None
         | Some (called, stopped) \<Rightarrow>
             if stopped then Some (called, True)
             else Some (run_handler (el_onClick e) False called))
      else None)"

fun content_of :: "rendered \<Rightarrow> element" where
  "content_of (Inline e) = e"
| "content_of (Portal e) = e"

text \<open>
  The calls a click makes on what the component returned. React delivers a click inside
  a portal to the handlers of the portal's content as it does inline.
\<close>

definition click :: "rendered option \<Rightarrow> nat list \<Rightarrow> callback list option" where
  "click r path =
     (case r of None \<Rightarrow> None | Some v \<Rightarrow> map_option fst (bubble (content_of v) path))"

text \<open>Whether the propagation of the click was stopped inside what the component returned.\<close>

definition propagation_stopped :: "rendered option \<Rightarrow> nat list \<Rightarrow> bool option" where
  "propagation_stopped r path =
     (case r of None \<Rightarrow> None | Some v \<Rightarrow> map_option snd (bubble (content_of v) path))"

text \<open>The element that child indices address, and the tag of a click's target.\<close>

fun element_at :: "element \<Rightarrow> nat list \<Rightarrow> element option" where
  "element_at e [] = Some e"
| "element_at e (i # is) =
     (if i < length (el_kids e) then element_at (el_kids e ! i) is else None)"

definition target_tag :: "rendered option \<Rightarrow> nat list \<Rightarrow> tag option" where
  "target_tag r path =
     (case r of None \<Rightarrow> None | Some v \<Rightarrow> map_option el_tag (element_at (content_of v) path))"

text \<open>An element of the caller's that has no \<^verbatim>\<open>onClick\<close>, nor has any element below it.\<close>

fun no_onClick :: "element \<Rightarrow> bool" where
  "no_onClick (Element t h s ks) = (h = None \<and> list_all no_onClick ks)"

definition plain_content :: "locals \<Rightarrow> bool" where
  "plain_content c =
     (list_all no_onClick (default_to [] (title c)) \<and>
      list_all no_onClick (children c) \<and>
      list_all no_onClick (default_to [] (actions c)))"


text \<open>Where the close button is in the returned tree, when it is rendered.\<close>

definition close_button_path :: "locals \<Rightarrow> nat list" where
  "close_button_path c = [0, 0, if title c = None then 0 else 1]"

text \<open>
  The CSS rule for \<^verbatim>\<open>display: none\<close>: an element is displayed only if neither it nor any
  element above it has that inline style.
\<close>

definition display_none :: "element \<Rightarrow> bool" where
  "display_none e = (map_of (el_style e) ''display'' = Some ''none'')"

fun displayed :: "element \<Rightarrow> nat list \<Rightarrow> bool option" where
  "displayed e [] = Some (\<not> display_none e)"
| "displayed e (i # is) =
     (if i < length (el_kids e) then
        (case displayed (el_kids e ! i) is of
           None \<Rightarrow> None
         | Some d \<Rightarrow> Some (d \<and> \<not> display_none e))
      else None)"

section \<open>The effects\<close>

text \<open>
  \<^verbatim>\<open>handleKeyDown\<close> is created by each run of the second effect and captures
  \<^verbatim>\<open>closeOnEscape\<close>, \<^verbatim>\<open>open\<close> and \<^verbatim>\<open>onClose\<close> of that render.
\<close>

datatype key_listener = HandleKeyDown bool bool callback

definition handleKeyDown :: "bool \<Rightarrow> bool \<Rightarrow> callback \<Rightarrow> string \<Rightarrow> callback list \<Rightarrow> callback list" where
  "handleKeyDown closeOnEscape_v open_v onClose_v key called =
     (if closeOnEscape_v \<and> key = ''Escape'' \<and> open_v then called @ [onClose_v] else called)"

fun call_listener :: "string \<Rightarrow> callback list \<Rightarrow> nat \<times> key_listener \<Rightarrow> callback list" where
  "call_listener key called (f, HandleKeyDown ce op cb) = handleKeyDown ce op cb key called"

text \<open>
  What the effects touch: \<^verbatim>\<open>document.body.style.overflow\<close>, the \<^verbatim>\<open>keydown\<close> listeners of
  \<^verbatim>\<open>document\<close> in the order of their registration, each with the identity of its function
  object, and the identity the next function object gets.
\<close>

record document =
  body_style_overflow :: string
  keydown_listeners :: "(nat \<times> key_listener) list"
  next_function :: nat

definition fresh_document :: "string \<Rightarrow> document" where
  "fresh_document ov = \<lparr> body_style_overflow = ov, keydown_listeners = [], next_function = 0 \<rparr>"

text \<open>A function already registered is not registered twice.\<close>

definition addEventListener :: "nat \<Rightarrow> key_listener \<Rightarrow> document \<Rightarrow> document" where
  "addEventListener f h d =
     (if f \<in> fst ` set (keydown_listeners d) then d
      else d\<lparr>keydown_listeners := keydown_listeners d @ [(f, h)]\<rparr>)"

definition removeEventListener :: "nat \<Rightarrow> document \<Rightarrow> document" where
  "removeEventListener f d =
     d\<lparr>keydown_listeners := filter (\<lambda>l. fst l \<noteq> f) (keydown_listeners d)\<rparr>"

text \<open>A \<^verbatim>\<open>keydown\<close> event on the document: the calls its listeners make.\<close>

definition keydown_event :: "string \<Rightarrow> document \<Rightarrow> callback list" where
  "keydown_event key d = foldl (call_listener key) [] (keydown_listeners d)"

text \<open>The first effect and the cleanup it returns, which closes over the same locals.\<close>

definition scroll_effect :: "locals \<Rightarrow> document \<Rightarrow> document" where
  "scroll_effect c d =
     (if disableBodyScroll c \<and> open c then d\<lparr>body_style_overflow := ''hidden''\<rparr> else d)"

definition scroll_cleanup :: "locals \<Rightarrow> document \<Rightarrow> document" where
  "scroll_cleanup c d =
     (if disableBodyScroll c then d\<lparr>body_style_overflow := ''''\<rparr> else d)"

text \<open>
  The second effect: it creates \<^verbatim>\<open>handleKeyDown\<close> and registers it, whatever \<^verbatim>\<open>open\<close> is;
  its cleanup removes that same function.
\<close>

definition handleKeyDown_of :: "locals \<Rightarrow> key_listener" where
  "handleKeyDown_of c = HandleKeyDown (closeOnEscape c) (open c) (onClose c)"

definition key_effect :: "locals \<Rightarrow> document \<Rightarrow> nat \<times> document" where
  "key_effect c d =
     (let f = next_function d
      in (f, addEventListener f (handleKeyDown_of c) (d\<lparr>next_function := f + 1\<rparr>)))"

text \<open>
  A mounted component: the locals of its last render, against which the dependency
  arrays are compared, and what the two pending cleanups have captured.
\<close>

record mounted =
  committed :: locals
  scroll_closure :: locals
  key_closure :: nat

text \<open>The first render: both hooks are called before the early return, so both effects run.\<close>

definition mount :: "DialogProps \<Rightarrow> document \<Rightarrow> mounted \<times> document" where
  "mount props d =
     (let c = destructure props;
          d1 = scroll_effect c d;
          (f, d2) = key_effect c d1
      in (\<lparr> committed = c, scroll_closure = c, key_closure = f \<rparr>, d2))"

text \<open>
  A later render. An effect whose dependencies changed has its cleanup run, and then runs
  again; React runs the cleanups of a commit before its effects. The dependencies are
  \<^verbatim>\<open>[open, disableBodyScroll]\<close> and \<^verbatim>\<open>[closeOnEscape, onClose, open]\<close>.
\<close>

definition rerender :: "DialogProps \<Rightarrow> mounted \<times> document \<Rightarrow> mounted \<times> document" where
  "rerender props s =
     (let inst = fst s; d = snd s;
          c = destructure props;
          old = committed inst;
          scroll_changed = (open c \<noteq> open old \<or> disableBodyScroll c \<noteq> disableBodyScroll old);
          key_changed = (closeOnEscape c \<noteq> closeOnEscape old \<or> onClose c \<noteq> onClose old \<or>
                         open c \<noteq> open old);
          d1 = (if scroll_changed then scroll_cleanup (scroll_closure inst) d else d);
          d2 = (if key_changed then removeEventListener (key_closure inst) d1 else d1);
          d3 = (if scroll_changed then scroll_effect c d2 else d2);
          (f, d4) = (if key_changed then key_effect c d3 else (key_closure inst, d3))
      in (\<lparr> committed = c,
            scroll_closure = (if scroll_changed then c else scroll_closure inst),
            key_closure = f \<rparr>, d4))"

text \<open>Removing the component runs both cleanups.\<close>

definition unmount :: "mounted \<times> document \<Rightarrow> document" where
  "unmount s =
     removeEventListener (key_closure (fst s)) (scroll_cleanup (scroll_closure (fst s)) (snd s))"

text \<open>
  A component mounted with \<open>p0\<close> in a document with no listeners yet, then rendered
  again with each of \<open>ps\<close> in turn.
\<close>

definition run :: "DialogProps \<Rightarrow> DialogProps list \<Rightarrow> string \<Rightarrow> mounted \<times> document" where
  "run p0 ps ov = foldl (\<lambda>s p. rerender p s) (mount p0 (fresh_document ov)) ps"

text \<open>The same props with \<^verbatim>\<open>open\<close> set, for each of a list of values.\<close>

definition opens :: "DialogProps \<Rightarrow> bool list \<Rightarrow> DialogProps list" where
  "opens props os = map (\<lambda>b. props\<lparr>props_open := b\<rparr>) os"

section \<open>The keydown listener across renders\<close>

lemma committed_mount [simp]: "committed (fst (mount p d)) = destructure p"
  by (simp add: mount_def Let_def split_beta)

lemma committed_rerender [simp]: "committed (fst (rerender p s)) = destructure p"
  by (simp add: rerender_def Let_def split_beta)

lemma run_snoc: "run p0 (ps @ [p]) ov = rerender p (run p0 ps ov)"
  by (simp add: run_def)

lemma committed_run: "committed (fst (run p0 ps ov)) = destructure (last (p0 # ps))"
  by (induction ps rule: rev_induct) (simp_all add: run_def)

lemma listeners_scroll_effect [simp]:
  "keydown_listeners (scroll_effect c d) = keydown_listeners d"
  by (simp add: scroll_effect_def)

lemma listeners_scroll_cleanup [simp]:
  "keydown_listeners (scroll_cleanup c d) = keydown_listeners d"
  by (simp add: scroll_cleanup_def)

lemma mount_listener:
  "keydown_listeners (snd (mount p (fresh_document ov))) = [(0, handleKeyDown_of (destructure p))] \<and>
   key_closure (fst (mount p (fresh_document ov))) = 0"
  by (simp add: mount_def key_effect_def addEventListener_def fresh_document_def Let_def
      scroll_effect_def)

text \<open>
  A render leaves exactly one listener registered if there was exactly one, the one its
  pending cleanup knows: the listener created by the last run of the effect.
\<close>

lemma rerender_listener:
  assumes "keydown_listeners (snd s) = [(key_closure (fst s), handleKeyDown_of (committed (fst s)))]"
  shows "keydown_listeners (snd (rerender p s)) =
     [(key_closure (fst (rerender p s)), handleKeyDown_of (destructure p))]"
  using assms
  by (simp add: rerender_def key_effect_def addEventListener_def removeEventListener_def
      Let_def handleKeyDown_of_def)

lemma run_listener:
  "keydown_listeners (snd (run p0 ps ov)) =
     [(key_closure (fst (run p0 ps ov)), handleKeyDown_of (destructure (last (p0 # ps))))]"
proof (induction ps rule: rev_induct)
  case Nil
  show ?case by (simp add: run_def mount_listener)
next
  case (snoc p ps)
  have "keydown_listeners (snd (run p0 ps ov)) =
     [(key_closure (fst (run p0 ps ov)), handleKeyDown_of (committed (fst (run p0 ps ov))))]"
    using snoc.IH by (simp add: committed_run)
  from rerender_listener [OF this, of p] show ?case
    by (simp add: run_snoc)
qed

lemma keydown_run:
  "keydown_event key (snd (run p0 ps ov)) =
     (if closeOnEscape (destructure (last (p0 # ps))) \<and> key = ''Escape'' \<and>
         props_open (last (p0 # ps))
      then [onClose (destructure (last (p0 # ps)))] else [])"
proof -
  have "open (destructure (last (p0 # ps))) = props_open (last (p0 # ps))"
    by (simp add: destructure_def)
  then show ?thesis
    by (simp add: keydown_event_def run_listener handleKeyDown_of_def handleKeyDown_def)
qed

text \<open>Removing the component removes its listener.\<close>

lemma unmount_run: "keydown_listeners (unmount (run p0 ps ov)) = []"
  by (simp add: unmount_def removeEventListener_def run_listener)

section \<open>The scroll lock across renders\<close>

lemma overflow_removeEventListener [simp]:
  "body_style_overflow (removeEventListener f d) = body_style_overflow d"
  by (simp add: removeEventListener_def)

lemma overflow_key_effect [simp]:
  "body_style_overflow (snd (key_effect c d)) = body_style_overflow d"
  by (simp add: key_effect_def addEventListener_def Let_def)

lemma overflow_mount:
  "body_style_overflow (snd (mount p d)) =
     (if disableBodyScroll (destructure p) \<and> open (destructure p) then ''hidden''
      else body_style_overflow d)"
  by (simp add: mount_def Let_def scroll_effect_def split_beta)

lemma scroll_closure_mount [simp]: "scroll_closure (fst (mount p d)) = destructure p"
  by (simp add: mount_def Let_def split_beta)

lemma overflow_rerender:
  assumes "disableBodyScroll (scroll_closure (fst s))"
    and "disableBodyScroll (committed (fst s))"
    and "disableBodyScroll (destructure p)"
  shows "body_style_overflow (snd (rerender p s)) =
     (if open (destructure p) = open (committed (fst s)) then body_style_overflow (snd s)
      else if open (destructure p) then ''hidden'' else [])"
  using assms
  by (simp add: rerender_def Let_def scroll_effect_def scroll_cleanup_def split_beta)

lemma scroll_closure_rerender:
  assumes "disableBodyScroll (scroll_closure (fst s))"
    and "disableBodyScroll (destructure p)"
  shows "disableBodyScroll (scroll_closure (fst (rerender p s)))"
  using assms by (simp add: rerender_def Let_def split_beta)

lemma destructure_open [simp]:
  "open (destructure (p\<lparr>props_open := b\<rparr>)) = b"
  "disableBodyScroll (destructure (p\<lparr>props_open := b\<rparr>)) = disableBodyScroll (destructure p)"
  by (simp_all add: destructure_def)

lemma last_opens:
  "last (p\<lparr>props_open := b\<rparr> # opens p os) = p\<lparr>props_open := last (b # os)\<rparr>"
  by (induction os rule: rev_induct) (simp_all add: opens_def)

lemma opens_snoc: "opens p (os @ [b]) = opens p os @ [p\<lparr>props_open := b\<rparr>]"
  by (simp add: opens_def)

lemma scroll_run:
  assumes dbs: "disableBodyScroll (destructure p)"
  shows "disableBodyScroll (scroll_closure (fst (run (p\<lparr>props_open := b\<rparr>) (opens p os) ov))) \<and>
     body_style_overflow (snd (run (p\<lparr>props_open := b\<rparr>) (opens p os) ov)) =
       (if last (b # os) then ''hidden'' else if True \<in> set (b # os) then [] else ov)"
proof (induction os rule: rev_induct)
  case Nil
  show ?case using dbs by (simp add: run_def opens_def overflow_mount fresh_document_def)
next
  case (snoc x os)
  let ?s = "run (p\<lparr>props_open := b\<rparr>) (opens p os) ov"
  have c: "committed (fst ?s) = destructure (p\<lparr>props_open := last (b # os)\<rparr>)"
    by (simp only: committed_run last_opens)
  have step: "run (p\<lparr>props_open := b\<rparr>) (opens p (os @ [x])) ov =
      rerender (p\<lparr>props_open := x\<rparr>) ?s"
    by (simp add: opens_snoc run_snoc)
  have 1: "disableBodyScroll (scroll_closure (fst ?s))" using snoc.IH by simp
  have 2: "disableBodyScroll (committed (fst ?s))" using dbs by (simp add: c)
  have 3: "disableBodyScroll (destructure (p\<lparr>props_open := x\<rparr>))" using dbs by simp
  have ov: "body_style_overflow (snd ?s) =
       (if last (b # os) then ''hidden'' else if True \<in> set (b # os) then [] else ov)"
    using snoc.IH by simp
  have "body_style_overflow (snd (rerender (p\<lparr>props_open := x\<rparr>) ?s)) =
       (if x = last (b # os) then body_style_overflow (snd ?s)
        else if x then ''hidden'' else [])"
    using overflow_rerender [OF 1 2 3] by (simp add: c)
  also have "\<dots> = (if last (b # os @ [x]) then ''hidden''
        else if True \<in> set (b # os @ [x]) then [] else ov)"
  proof (cases "x = last (b # os)")
    case True
    then show ?thesis using ov by auto
  next
    case False
    have "last (b # os) \<in> set (b # os)" by (rule last_in_set) simp
    with False show ?thesis by (cases x) auto
  qed
  finally show ?case
    using scroll_closure_rerender [OF 1 3] by (simp add: step)
qed

section \<open>Clicks on the returned tree\<close>

lemma no_onClick_kid:
  "no_onClick e \<Longrightarrow> i < length (el_kids e) \<Longrightarrow> no_onClick (el_kids e ! i)"
  by (cases e) (simp add: list_all_length)

lemma no_onClick_handler: "no_onClick e \<Longrightarrow> el_onClick e = None"
  by (cases e) simp

text \<open>What a click returns in terms of what it returns at the child it passes through.\<close>

lemma bubble_kid:
  assumes "bubble (Element t h sty ks) (i # is) = Some r"
  shows "\<exists>r'. i < length ks \<and> bubble (ks ! i) is = Some r' \<and>
       r = (if snd r' then (fst r', True) else run_handler h False (fst r'))"
proof -
  have i: "i < length ks"
    using assms by (simp split: if_split_asm)
  show ?thesis
  proof (cases "bubble (ks ! i) is")
    case None
    with assms i show ?thesis by simp
  next
    case (Some r')
    with assms i show ?thesis by (cases r') (simp split: if_split_asm)
  qed
qed

text \<open>A click inside content without handlers calls nothing and is not stopped.\<close>

lemma bubble_plain:
  "no_onClick e \<Longrightarrow> bubble e path = Some r \<Longrightarrow> r = ([], False)"
proof (induction path arbitrary: e r)
  case Nil
  then show ?case by (simp add: no_onClick_handler)
next
  case (Cons i "is")
  from Cons.prems(2) obtain r' where i: "i < length (el_kids e)"
    and r': "bubble (el_kids e ! i) is = Some r'"
    by (auto split: if_splits option.splits)
  have "r' = ([], False)"
    using Cons.IH [OF no_onClick_kid [OF Cons.prems(1) i] r'] .
  with Cons.prems i r' show ?case
    by (simp add: no_onClick_handler)
qed

lemma bubble_plain_list:
  "list_all no_onClick ks \<Longrightarrow> bubble (Element t None sty ks) path = Some r \<Longrightarrow> r = ([], False)"
  using bubble_plain [of "Element t None sty ks" path r] by simp

lemma bubble_close_button:
  "bubble (Element CloseButton (Some (OnClose cb)) [] []) path = Some r \<Longrightarrow>
     path = [] \<and> r = ([cb], False)"
  by (cases path) auto

lemma bubble_header:
  assumes "plain_content c"
    and "bubble (Element DialogHeader None [] (header_kids c)) path = Some r"
  shows "r = (if showCloseButton c \<and> path = [if title c = None then 0 else 1]
              then [onClose c] else [], False)"
proof (cases path)
  case Nil
  with assms show ?thesis by simp
next
  case (Cons i "is")
  show ?thesis
  proof (cases "title c")
    case None
    with assms Cons show ?thesis
      by (auto simp: header_kids_def split: if_splits option.splits dest: bubble_close_button)
  next
    case (Some t)
    with assms(1) have t: "list_all no_onClick t"
      by (simp add: plain_content_def default_to_def)
    show ?thesis
    proof (cases i)
      case 0
      with assms Cons Some t show ?thesis
        by (auto simp: header_kids_def split: if_splits option.splits dest: bubble_plain_list)
    next
      case (Suc j)
      with assms Cons Some show ?thesis
        by (auto simp: header_kids_def split: if_splits option.splits dest: bubble_close_button)
    qed
  qed
qed

lemma container_kid:
  assumes "plain_content c" and "i < length (container_kids c)"
    and "bubble (container_kids c ! i) is = Some r'"
  shows "r' = (if showCloseButton c \<and> i # is = [0, if title c = None then 0 else 1]
              then [onClose c] else [], False)"
proof -
  have ch: "list_all no_onClick (children c)"
    and ac: "\<And>a. actions c = Some a \<Longrightarrow> list_all no_onClick a"
    using assms(1) by (simp_all add: plain_content_def default_to_def)
  show ?thesis
  proof (cases "title c \<noteq> None \<or> showCloseButton c")
    case True
    then have kids: "container_kids c =
        Element DialogHeader None [] (header_kids c) # Element DialogContent None [] (children c) #
        (case actions c of None \<Rightarrow> [] | Some a \<Rightarrow> [Element DialogActions None [] a])"
      by (simp add: container_kids_def)
    show ?thesis
    proof (cases i)
      case 0
      with assms(3) kids have "bubble (Element DialogHeader None [] (header_kids c)) is = Some r'"
        by simp
      from bubble_header [OF assms(1) this] 0 show ?thesis by simp
    next
      case (Suc j)
      with assms(2,3) kids ch ac show ?thesis
        by (cases j) (auto split: option.splits dest: bubble_plain_list)
    qed
  next
    case False
    then have kids: "container_kids c = Element DialogContent None [] (children c) #
        (case actions c of None \<Rightarrow> [] | Some a \<Rightarrow> [Element DialogActions None [] a])"
      by (simp add: container_kids_def)
    from False assms(2,3) kids ch ac show ?thesis
      by (cases i) (auto split: option.splits dest: bubble_plain_list)
  qed
qed

text \<open>A click on the panel or inside it is stopped at the panel.\<close>

lemma bubble_container:
  assumes "plain_content c" and "bubble (dialogContainer c) path = Some r"
  shows "r = (if showCloseButton c \<and> path = [0, if title c = None then 0 else 1]
              then [onClose c] else [], True)"
proof (cases path)
  case Nil
  with assms show ?thesis by (simp add: dialogContainer_def)
next
  case (Cons i "is")
  with assms(2) obtain r' where i: "i < length (container_kids c)"
    and r': "bubble (container_kids c ! i) is = Some r'"
    and r: "r = (if snd r' then (fst r', True)
                 else run_handler (Some StopPropagation) False (fst r'))"
    unfolding dialogContainer_def by (blast dest: bubble_kid)
  from container_kid [OF assms(1) i r'] r Cons show ?thesis by simp
qed

lemma bubble_container_stops:
  assumes "bubble (dialogContainer c) path = Some r"
  shows "snd r"
proof (cases path)
  case Nil
  with assms show ?thesis by (auto simp: dialogContainer_def)
next
  case (Cons i "is")
  with assms obtain r' where
    "r = (if snd r' then (fst r', True)
          else run_handler (Some StopPropagation) False (fst r'))"
    unfolding dialogContainer_def by (blast dest: bubble_kid)
  then show ?thesis by simp
qed

lemma bubble_panel_stops:
  assumes "bubble (dialogContent c) (i # rest) = Some r"
  shows "snd r"
proof -
  from assms obtain r' where i: "i < length [dialogContainer c]"
    and r': "bubble ([dialogContainer c] ! i) rest = Some r'"
    and r: "r = (if snd r' then (fst r', True)
        else run_handler (Some (HandleBackdropClick (closeOnOutsideClick c) (onClose c)))
               False (fst r'))"
    unfolding dialogContent_def by (blast dest: bubble_kid)
  from i r' have "bubble (dialogContainer c) rest = Some r'" by simp
  from bubble_container_stops [OF this] r show ?thesis by simp
qed

lemma bubble_backdrop_itself:
  "bubble (dialogContent c) [] =
     Some (if closeOnOutsideClick c then [onClose c] else [], False)"
  by (simp add: dialogContent_def handleBackdropClick_def)

lemma bubble_inside_panel:
  assumes "plain_content c" and "bubble (dialogContent c) (i # rest) = Some r"
  shows "i = 0 \<and> r = (if showCloseButton c \<and> rest = [0, if title c = None then 0 else 1]
              then [onClose c] else [], True)"
proof -
  from assms(2) obtain r' where i: "i < length [dialogContainer c]"
    and r': "bubble ([dialogContainer c] ! i) rest = Some r'"
    and r: "r = (if snd r' then (fst r', True)
        else run_handler (Some (HandleBackdropClick (closeOnOutsideClick c) (onClose c)))
               False (fst r'))"
    unfolding dialogContent_def by (blast dest: bubble_kid)
  from i have i0: "i = 0" by simp
  with r' have "bubble (dialogContainer c) rest = Some r'" by simp
  from bubble_container [OF assms(1) this] r i0 show ?thesis by simp
qed

lemma bubble_close_button_path:
  assumes "showCloseButton c"
  shows "bubble (dialogContent c) (close_button_path c) = Some ([onClose c], True)"
  using assms
  by (cases "title c")
    (simp_all add: dialogContent_def dialogContainer_def close_button_path_def
      container_kids_def header_kids_def)

lemma element_at_close_button_path:
  assumes "showCloseButton c"
  shows "map_option el_tag (element_at (dialogContent c) (close_button_path c)) = Some CloseButton"
  using assms
  by (cases "title c")
    (simp_all add: dialogContent_def dialogContainer_def close_button_path_def
      container_kids_def header_kids_def)

lemma Dialog_open:
  "props_open props \<Longrightarrow>
     \<exists>v. Dialog props = Some v \<and> content_of v = dialogContent (destructure props)"
  by (simp add: Dialog_def render_locals_def destructure_def)

lemma click_open:
  "props_open props \<Longrightarrow>
     click (Dialog props) path = map_option fst (bubble (dialogContent (destructure props)) path)"
  using Dialog_open [of props] by (auto simp: click_def)

lemma propagation_stopped_open:
  "props_open props \<Longrightarrow>
     propagation_stopped (Dialog props) path =
       map_option snd (bubble (dialogContent (destructure props)) path)"
  using Dialog_open [of props] by (auto simp: propagation_stopped_def)








section \<open>Display\<close>

lemma displayed_under_none:
  "display_none e \<Longrightarrow> displayed e path = Some d \<Longrightarrow> \<not> d"
  by (cases path) (auto split: if_splits option.splits)

section \<open>The claims\<close>

text \<open>
  C1, as the code has it. For every configuration, rendering the Dialog with
  \<^verbatim>\<open>open=false\<close> returns nothing and, on mount, does not write the body's overflow
  style; one keydown listener is installed on the document all the same, and the handler
  has captured \<^verbatim>\<open>open=false\<close>.
\<close>

theorem closed_dialog_renders_nothing:
  assumes "\<not> props_open p"
  shows "Dialog p = None \<and>
     body_style_overflow (snd (mount p (fresh_document ov))) = ov \<and>
     keydown_listeners (snd (mount p (fresh_document ov))) =
       [(0, HandleKeyDown (closeOnEscape (destructure p)) False (onClose (destructure p)))]"
proof -
  have o: "\<not> open (destructure p)"
    using assms by (simp add: destructure_def)
  then have "Dialog p = None"
    by (simp add: Dialog_def render_locals_def)
  moreover have "body_style_overflow (snd (mount p (fresh_document ov))) = ov"
    using o by (simp add: overflow_mount fresh_document_def)
  moreover have "keydown_listeners (snd (mount p (fresh_document ov))) =
       [(0, HandleKeyDown (closeOnEscape (destructure p)) False (onClose (destructure p)))]"
    using o by (simp add: mount_listener handleKeyDown_of_def)
  ultimately show ?thesis by simp
qed

theorem closed_dialog_renders_nothing_witness:
  "\<not> props_open (required_only False [] 0) \<and>
   Dialog (required_only False [] 0) = None \<and>
   body_style_overflow (snd (mount (required_only False [] 0) (fresh_document ''auto''))) = ''auto'' \<and>
   keydown_listeners (snd (mount (required_only False [] 0) (fresh_document ''auto''))) =
     [(0, HandleKeyDown True False 0)]"
proof -
  have h: "\<not> props_open (required_only False [] 0)"
    by (simp add: required_only_def)
  show ?thesis
    using h closed_dialog_renders_nothing [OF h, of "''auto''"]
    by (simp add: destructure_def required_only_def default_to_def)
qed

text \<open>
  C1, as stated, fails: mounted with \<^verbatim>\<open>open=false\<close> and every option at its default,
  the component returns nothing, yet a keydown listener is registered on the document.
\<close>

theorem closed_dialog_registers_listener:
  "Dialog (required_only False [] 0) = None \<and>
   keydown_listeners (snd (mount (required_only False [] 0) (fresh_document []))) \<noteq> []"
  by (simp add: Dialog_def render_locals_def destructure_def required_only_def default_to_def
      mount_def scroll_effect_def key_effect_def addEventListener_def fresh_document_def Let_def)

text \<open>
  C2, as the code has it. With \<^verbatim>\<open>disableBodyScroll\<close> enabled, after any sequence of
  renders that change only \<^verbatim>\<open>open\<close>, the body's overflow style is \<^verbatim>\<open>hidden\<close> if the
  dialog is open; if it is closed, the style is the empty string once the dialog has been
  open at some point, and the starting value if it never was. The value from before is
  not recorded: leaving Open clears the style.
\<close>

theorem scroll_lock_after_toggles:
  assumes "disableBodyScroll (destructure p)"
  shows "body_style_overflow (snd (run (p\<lparr>props_open := b\<rparr>) (opens p os) ov)) =
       (if last (b # os) then ''hidden'' else if True \<in> set (b # os) then [] else ov)"
  using scroll_run [OF assms] by simp

theorem scroll_lock_after_toggles_witness:
  "disableBodyScroll (destructure (required_only False [] 0)) \<and>
   body_style_overflow
     (snd (run ((required_only False [] 0)\<lparr>props_open := True\<rparr>)
            (opens (required_only False [] 0) [False, True, False]) ''scroll'')) = []"
proof -
  have h: "disableBodyScroll (destructure (required_only False [] 0))"
    by (simp add: destructure_def required_only_def default_to_def)
  show ?thesis
    using h scroll_lock_after_toggles [OF h, of True "[False, True, False]" "''scroll''"]
    by simp
qed

text \<open>
  C2, as stated, fails: with the body's overflow style at \<^verbatim>\<open>scroll\<close>, a dialog mounted
  open and then closed leaves the style empty, not \<^verbatim>\<open>scroll\<close>.
\<close>

theorem scroll_lock_prior_value_lost:
  "disableBodyScroll (destructure (required_only True [] 0)) \<and>
   \<not> props_open (last (required_only True [] 0 # opens (required_only True [] 0) [False])) \<and>
   body_style_overflow
     (snd (run (required_only True [] 0) (opens (required_only True [] 0) [False]) ''scroll''))
     \<noteq> body_style_overflow (fresh_document ''scroll'')"
  by (simp add: run_def opens_def mount_def rerender_def destructure_def required_only_def
      default_to_def scroll_effect_def scroll_cleanup_def key_effect_def handleKeyDown_of_def
      addEventListener_def removeEventListener_def fresh_document_def Let_def)

text \<open>
  C3. For every configuration with \<^verbatim>\<open>open=true\<close>, an Escape key event invokes
  \<^verbatim>\<open>onClose\<close> exactly once if \<^verbatim>\<open>closeOnEscape\<close> is enabled, and not at all if it is
  disabled. The dialog may have been rendered any number of times before.
\<close>

theorem escape_invokes_onClose_iff_closeOnEscape:
  assumes "props_open (last (p0 # ps))"
  shows "keydown_event ''Escape'' (snd (run p0 ps ov)) =
     (if closeOnEscape (destructure (last (p0 # ps)))
      then [onClose (destructure (last (p0 # ps)))] else [])"
  using assms by (simp add: keydown_run)

theorem escape_invokes_onClose_iff_closeOnEscape_witness:
  "props_open (last (required_only False [] 5 # [required_only True [] 5])) \<and>
   keydown_event ''Escape''
     (snd (run (required_only False [] 5) [required_only True [] 5] [])) = [5]"
proof -
  have h: "props_open (last (required_only False [] 5 # [required_only True [] 5]))"
    by (simp add: required_only_def)
  show ?thesis
    using h escape_invokes_onClose_iff_closeOnEscape [OF h, of "[]"]
    by (simp add: destructure_def required_only_def default_to_def)
qed

text \<open>
  C4, as the code has it. For every configuration with \<^verbatim>\<open>open=true\<close>, a click whose
  target is the backdrop itself invokes \<^verbatim>\<open>onClose\<close> (once) if and only if
  \<^verbatim>\<open>closeOnOutsideClick\<close> is enabled; a click whose target is the panel or inside it
  has its propagation stopped at the panel, and it invokes \<^verbatim>\<open>onClose\<close> only when the
  target is the close button (the caller's content having no click handlers of its own).
\<close>

theorem backdrop_and_panel_clicks:
  assumes "props_open p"
  shows "click (Dialog p) [] =
       Some (if closeOnOutsideClick (destructure p) then [onClose (destructure p)] else []) \<and>
     (\<forall>rest s. propagation_stopped (Dialog p) (0 # rest) = Some s \<longrightarrow> s) \<and>
     (\<forall>rest called. plain_content (destructure p) \<longrightarrow>
        click (Dialog p) (0 # rest) = Some called \<longrightarrow>
        called = (if showCloseButton (destructure p) \<and> 0 # rest = close_button_path (destructure p)
                  then [onClose (destructure p)] else []))"
proof (intro conjI allI impI)
  show "click (Dialog p) [] =
       Some (if closeOnOutsideClick (destructure p) then [onClose (destructure p)] else [])"
    by (simp only: click_open [OF assms] bubble_backdrop_itself) simp
next
  fix rest s
  assume "propagation_stopped (Dialog p) (0 # rest) = Some s"
  then obtain r where "bubble (dialogContent (destructure p)) (0 # rest) = Some r"
    and "s = snd r"
    by (auto simp: propagation_stopped_open [OF assms])
  with bubble_panel_stops [of "destructure p" 0 rest r] show s
    by simp
next
  fix rest called
  assume plain: "plain_content (destructure p)"
    and "click (Dialog p) (0 # rest) = Some called"
  then obtain r where r: "bubble (dialogContent (destructure p)) (0 # rest) = Some r"
    and "called = fst r"
    by (auto simp: click_open [OF assms])
  with bubble_inside_panel [OF plain r]
  show "called = (if showCloseButton (destructure p) \<and> 0 # rest = close_button_path (destructure p)
                  then [onClose (destructure p)] else [])"
    by (simp add: close_button_path_def)
qed

theorem backdrop_and_panel_clicks_witness:
  "props_open (required_only True [Element (Host ''p'') None [] []] 3) \<and>
   click (Dialog (required_only True [Element (Host ''p'') None [] []] 3)) [] = Some [3] \<and>
   propagation_stopped (Dialog (required_only True [Element (Host ''p'') None [] []] 3)) [0, 1, 0] =
     Some True \<and>
   plain_content (destructure (required_only True [Element (Host ''p'') None [] []] 3)) \<and>
   click (Dialog (required_only True [Element (Host ''p'') None [] []] 3)) [0, 1, 0] = Some []"
proof -
  let ?p = "required_only True [Element (Host ''p'') None [] []] 3"
  have h: "props_open ?p"
    by (simp add: required_only_def)
  have pl: "plain_content (destructure ?p)"
    by (simp add: plain_content_def destructure_def required_only_def default_to_def)
  have s: "propagation_stopped (Dialog ?p) [0, 1, 0] = Some True"
    by (simp add: propagation_stopped_def Dialog_def render_locals_def dialogContent_def
        dialogContainer_def container_kids_def header_kids_def destructure_def required_only_def
        default_to_def)
  have "\<exists>called. click (Dialog ?p) [0, 1, 0] = Some called"
    by (simp add: click_def Dialog_def render_locals_def dialogContent_def dialogContainer_def
        container_kids_def header_kids_def destructure_def required_only_def default_to_def)
  then obtain called where cl: "click (Dialog ?p) [0, 1, 0] = Some called"
    by blast
  from backdrop_and_panel_clicks [OF h] have
    1: "click (Dialog ?p) [] =
       Some (if closeOnOutsideClick (destructure ?p) then [onClose (destructure ?p)] else [])"
    and 2: "\<And>rest s. propagation_stopped (Dialog ?p) (0 # rest) = Some s \<Longrightarrow> s"
    and 3: "\<And>rest called. plain_content (destructure ?p) \<Longrightarrow>
        click (Dialog ?p) (0 # rest) = Some called \<Longrightarrow>
        called = (if showCloseButton (destructure ?p) \<and>
                     0 # rest = close_button_path (destructure ?p)
                  then [onClose (destructure ?p)] else [])"
    by blast+
  have "called = []"
    using 3 [OF pl cl] by (simp add: close_button_path_def)
  with 1 s 2 [OF s] cl h pl show ?thesis
    by (simp add: destructure_def required_only_def default_to_def)
qed

text \<open>
  C4, as stated, fails: with every option at its default, the close button is inside the
  panel, and a click on it invokes \<^verbatim>\<open>onClose\<close>.
\<close>

theorem click_inside_panel_on_close_button:
  "target_tag (Dialog (required_only True [] 3)) [0, 0, 0] = Some CloseButton \<and>
   click (Dialog (required_only True [] 3)) [0, 0, 0] = Some [3]"
  by (simp add: target_tag_def click_def Dialog_def render_locals_def dialogContent_def
      dialogContainer_def container_kids_def header_kids_def destructure_def required_only_def
      default_to_def)

text \<open>
  C5. For every configuration with \<^verbatim>\<open>open=true\<close> and \<^verbatim>\<open>showCloseButton\<close> enabled, a
  click on the close button invokes \<^verbatim>\<open>onClose\<close> exactly once, whatever
  \<^verbatim>\<open>closeOnEscape\<close> and \<^verbatim>\<open>closeOnOutsideClick\<close> are.
\<close>

theorem close_button_invokes_onClose_once:
  assumes "props_open p" and "showCloseButton (destructure p)"
  shows "target_tag (Dialog p) (close_button_path (destructure p)) = Some CloseButton \<and>
     click (Dialog p) (close_button_path (destructure p)) = Some [onClose (destructure p)]"
proof -
  from Dialog_open [OF assms(1)] obtain v where v: "Dialog p = Some v"
    and c: "content_of v = dialogContent (destructure p)"
    by blast
  have "target_tag (Dialog p) (close_button_path (destructure p)) = Some CloseButton"
    using element_at_close_button_path [OF assms(2)] by (simp add: target_tag_def v c)
  moreover have "click (Dialog p) (close_button_path (destructure p)) =
      Some [onClose (destructure p)]"
    by (simp add: click_open [OF assms(1)] bubble_close_button_path [OF assms(2)])
  ultimately show ?thesis by simp
qed

theorem close_button_invokes_onClose_once_witness:
  "props_open ((required_only True [] 4)
      \<lparr>props_closeOnOutsideClick := Some False, props_closeOnEscape := Some False\<rparr>) \<and>
   showCloseButton (destructure ((required_only True [] 4)
      \<lparr>props_closeOnOutsideClick := Some False, props_closeOnEscape := Some False\<rparr>)) \<and>
   click (Dialog ((required_only True [] 4)
      \<lparr>props_closeOnOutsideClick := Some False, props_closeOnEscape := Some False\<rparr>)) [0, 0, 0] =
     Some [4]"
proof -
  let ?p = "(required_only True [] 4)
      \<lparr>props_closeOnOutsideClick := Some False, props_closeOnEscape := Some False\<rparr>"
  have h1: "props_open ?p"
    by (simp add: required_only_def)
  have h2: "showCloseButton (destructure ?p)"
    by (simp add: destructure_def required_only_def default_to_def)
  show ?thesis
    using h1 h2 close_button_invokes_onClose_once [OF h1 h2]
    by (simp add: close_button_path_def destructure_def required_only_def default_to_def)
qed




text \<open>
  C7. Whether \<^verbatim>\<open>usePortal\<close> is true or false (or omitted), the component produces the
  same dialog content with the same handlers: every click makes the same calls to
  \<^verbatim>\<open>onClose\<close>, and so does every key event, after the same renders.
\<close>

theorem portal_does_not_affect_dismissal:
  "map_option content_of (Dialog (p\<lparr>props_usePortal := u\<rparr>)) =
     map_option content_of (Dialog (p\<lparr>props_usePortal := u'\<rparr>)) \<and>
   click (Dialog (p\<lparr>props_usePortal := u\<rparr>)) path =
     click (Dialog (p\<lparr>props_usePortal := u'\<rparr>)) path \<and>
   keydown_event key
     (snd (run (p0\<lparr>props_usePortal := u\<rparr>) (map (\<lambda>q. q\<lparr>props_usePortal := u\<rparr>) ps) ov)) =
   keydown_event key
     (snd (run (p0\<lparr>props_usePortal := u'\<rparr>) (map (\<lambda>q. q\<lparr>props_usePortal := u'\<rparr>) ps) ov))"
proof -
  have content: "\<And>w. map_option content_of (Dialog (p\<lparr>props_usePortal := w\<rparr>)) =
      (if props_open p then Some (dialogContent (destructure p)) else None)"
    by (simp add: Dialog_def render_locals_def destructure_def dialogContent_def
        dialogContainer_def container_kids_def header_kids_def)
  have click_eq: "\<And>w. click (Dialog (p\<lparr>props_usePortal := w\<rparr>)) path =
      (case map_option content_of (Dialog (p\<lparr>props_usePortal := w\<rparr>)) of
         None \<Rightarrow> None | Some e \<Rightarrow> map_option fst (bubble e path))"
    by (simp add: click_def split: option.splits)
  have lst: "\<And>w. last (p0\<lparr>props_usePortal := w\<rparr> # map (\<lambda>q. q\<lparr>props_usePortal := w\<rparr>) ps) =
      (last (p0 # ps))\<lparr>props_usePortal := w\<rparr>"
    by (induction ps rule: rev_induct) simp_all
  have key: "\<And>w. keydown_event key
       (snd (run (p0\<lparr>props_usePortal := w\<rparr>) (map (\<lambda>q. q\<lparr>props_usePortal := w\<rparr>) ps) ov)) =
     (if closeOnEscape (destructure (last (p0 # ps))) \<and> key = ''Escape'' \<and>
         props_open (last (p0 # ps))
      then [onClose (destructure (last (p0 # ps)))] else [])"
    by (simp only: keydown_run lst) (simp add: destructure_def)
  show ?thesis
    by (simp only: content click_eq key)
qed

theorem portal_does_not_affect_dismissal_witness:
  "Dialog ((required_only True [] 2)\<lparr>props_usePortal := Some True\<rparr>) \<noteq>
     Dialog ((required_only True [] 2)\<lparr>props_usePortal := Some False\<rparr>) \<and>
   click (Dialog ((required_only True [] 2)\<lparr>props_usePortal := Some True\<rparr>)) [] = Some [2] \<and>
   click (Dialog ((required_only True [] 2)\<lparr>props_usePortal := Some False\<rparr>)) [] = Some [2] \<and>
   keydown_event ''Escape''
     (snd (run ((required_only True [] 2)\<lparr>props_usePortal := Some True\<rparr>) [] [])) =
   keydown_event ''Escape''
     (snd (run ((required_only True [] 2)\<lparr>props_usePortal := Some False\<rparr>) [] []))"
proof -
  let ?p = "required_only True [] 2"
  have d: "Dialog (?p\<lparr>props_usePortal := Some True\<rparr>) \<noteq>
      Dialog (?p\<lparr>props_usePortal := Some False\<rparr>)"
    by (simp add: Dialog_def render_locals_def destructure_def required_only_def default_to_def)
  have c: "click (Dialog (?p\<lparr>props_usePortal := Some True\<rparr>)) [] = Some [2]"
    by (simp add: click_def Dialog_def render_locals_def dialogContent_def
        handleBackdropClick_def destructure_def required_only_def default_to_def)
  from portal_does_not_affect_dismissal
    [where p = "?p" and u = "Some True" and u' = "Some False" and path = "[]"
       and key = "''Escape''" and ?p0.0 = "?p" and ps = "[]" and ov = "[]"]
    d c show ?thesis
    by simp
qed

text \<open>
  C8. When the corresponding options are omitted, the effective configuration is:
  size medium, close button shown, closing on outside click and on Escape enabled,
  backdrop shown, body scroll disabled, portal rendering enabled.
\<close>

theorem defaults_when_omitted:
  "size_d (destructure (props\<lparr>props_size := None\<rparr>)) = Medium \<and>
   showCloseButton (destructure (props\<lparr>props_showCloseButton := None\<rparr>)) = True \<and>
   closeOnOutsideClick (destructure (props\<lparr>props_closeOnOutsideClick := None\<rparr>)) = True \<and>
   closeOnEscape (destructure (props\<lparr>props_closeOnEscape := None\<rparr>)) = True \<and>
   showBackdrop (destructure (props\<lparr>props_showBackdrop := None\<rparr>)) = True \<and>
   disableBodyScroll (destructure (props\<lparr>props_disableBodyScroll := None\<rparr>)) = True \<and>
   usePortal (destructure (props\<lparr>props_usePortal := None\<rparr>)) = True"
  by (simp add: destructure_def default_to_def)

theorem defaults_when_omitted_witness:
  "size_d (destructure (required_only True [] 0)) = Medium \<and>
   showCloseButton (destructure (required_only True [] 0)) \<and>
   closeOnOutsideClick (destructure (required_only True [] 0)) \<and>
   closeOnEscape (destructure (required_only True [] 0)) \<and>
   showBackdrop (destructure (required_only True [] 0)) \<and>
   disableBodyScroll (destructure (required_only True [] 0)) \<and>
   usePortal (destructure (required_only True [] 0))"
  using defaults_when_omitted [of "required_only True [] 0"]
  by (simp add: required_only_def)

text \<open>
  C9. For every configuration with \<^verbatim>\<open>open=true\<close> and \<^verbatim>\<open>showBackdrop=false\<close>, the
  backdrop element has the inline style \<^verbatim>\<open>display: none\<close>; the panel is its only child,
  so no element of the dialog is displayed: not the panel, nor anything inside it.
\<close>

theorem hidden_backdrop_hides_dialog:
  assumes "props_open p" and "\<not> showBackdrop (destructure p)"
  shows "\<exists>v. Dialog p = Some v \<and>
     el_tag (content_of v) = DialogBackdrop \<and>
     el_style (content_of v) = [(''display'', ''none'')] \<and>
     el_kids (content_of v) = [dialogContainer (destructure p)] \<and>
     displayed (content_of v) [0] = Some False \<and>
     (\<forall>path d. displayed (content_of v) path = Some d \<longrightarrow> \<not> d)"
proof -
  from Dialog_open [OF assms(1)] obtain v where v: "Dialog p = Some v"
    and c: "content_of v = dialogContent (destructure p)"
    by blast
  have none: "display_none (dialogContent (destructure p))"
    using assms(2) by (simp add: display_none_def dialogContent_def)
  have "displayed (dialogContent (destructure p)) [0] = Some False"
    using none by (simp add: dialogContent_def)
  moreover have "\<forall>path d. displayed (dialogContent (destructure p)) path = Some d \<longrightarrow> \<not> d"
    using displayed_under_none [OF none] by blast
  ultimately show ?thesis
    using v c assms(2) by (simp add: dialogContent_def)
qed

theorem hidden_backdrop_hides_dialog_witness:
  "props_open ((required_only True [] 0)\<lparr>props_showBackdrop := Some False\<rparr>) \<and>
   \<not> showBackdrop (destructure ((required_only True [] 0)\<lparr>props_showBackdrop := Some False\<rparr>)) \<and>
   (\<exists>v. Dialog ((required_only True [] 0)\<lparr>props_showBackdrop := Some False\<rparr>) = Some v \<and>
     displayed (content_of v) [0] = Some False \<and>
     displayed (content_of v) [0, 0, 0] = Some False)"
proof -
  let ?p = "(required_only True [] 0)\<lparr>props_showBackdrop := Some False\<rparr>"
  have h1: "props_open ?p"
    by (simp add: required_only_def)
  have h2: "\<not> showBackdrop (destructure ?p)"
    by (simp add: destructure_def required_only_def default_to_def)
  from hidden_backdrop_hides_dialog [OF h1 h2] obtain v where v: "Dialog ?p = Some v"
    and k: "el_kids (content_of v) = [dialogContainer (destructure ?p)]"
    and p0: "displayed (content_of v) [0] = Some False"
    and all: "\<forall>path d. displayed (content_of v) path = Some d \<longrightarrow> \<not> d"
    by blast
  have "\<exists>d. displayed (content_of v) [0, 0, 0] = Some d"
    by (simp add: k dialogContainer_def container_kids_def header_kids_def destructure_def
        required_only_def default_to_def)
  then obtain d where d: "displayed (content_of v) [0, 0, 0] = Some d"
    by blast
  with all have "\<not> d" by blast
  then have df: "d = False" by simp
  have "displayed (content_of v) [0, 0, 0] = Some False"
    using d unfolding df .
  with h1 h2 v p0 show ?thesis by blast
qed

text \<open>
  C10. While the component is mounted with \<^verbatim>\<open>open=false\<close>, a keydown handler is
  registered on the document, and no key event, Escape included, invokes \<^verbatim>\<open>onClose\<close>.
\<close>

theorem closed_dialog_ignores_keys:
  assumes "\<not> props_open (last (p0 # ps))"
  shows "keydown_listeners (snd (run p0 ps ov)) \<noteq> [] \<and>
     keydown_event key (snd (run p0 ps ov)) = []"
  using assms by (simp add: keydown_run run_listener)

theorem closed_dialog_ignores_keys_witness:
  "\<not> props_open (last (required_only True [] 5 # [required_only False [] 5])) \<and>
   keydown_listeners (snd (run (required_only True [] 5) [required_only False [] 5] [])) \<noteq> [] \<and>
   keydown_event ''Escape''
     (snd (run (required_only True [] 5) [required_only False [] 5] [])) = []"
proof -
  have h: "\<not> props_open (last (required_only True [] 5 # [required_only False [] 5]))"
    by (simp add: required_only_def)
  show ?thesis
    using h closed_dialog_ignores_keys [OF h, of "[]" "''Escape''"] by simp
qed

end
